theory Spec2Isabelle
  imports Complex_Main
begin

section \<open>Shared Python values\<close>

text \<open>
  The HTTP checker is modelled by shallow embedding. Everything the script obtains from
  the outside (the wall clock, the HTTP library, the report file) is an explicit argument
  of the model; everything it raises is a value of type \<open>exception\<close>. The resource
  monitor is a file that Python does not accept; its section models what running it does.

  Python floats are modelled as rationals. Comparisons between floats and integers are
  exact in Python, so they are plain comparisons here. Float arithmetic rounds: every
  float operation of the source is wrapped in the parameter \<open>rnd\<close>, the rounding of an
  exact result to the nearest float. Theorems that depend on rounding state what they need
  of \<open>rnd\<close> (monotone, exact on the few integers involved).

  A \<open>datetime\<close> is the number of microseconds since 0001-01-01T00:00:00, the smallest
  value of the type; \<open>isoformat\<close> followed by \<open>fromisoformat\<close> is the identity on it,
  so a timestamp string is modelled by the instant it denotes.

  Console printing and the operational log of the scripts are not part of the model, with
  one exception: the two log records written around the report file.
\<close>

datatype exception =
    OverflowError
  | Exception string

type_synonym datetime = int

type_synonym clock = "nat \<Rightarrow> datetime"

text \<open>
  A \<open>clock\<close> lists the readings that the following calls of \<open>datetime.now()\<close> will
  return: \<open>clk 0\<close> is the next one. \<open>advance n\<close> is the clock after \<open>n\<close> readings.
\<close>

definition advance :: "nat \<Rightarrow> clock \<Rightarrow> clock" where
  "advance n clk = (\<lambda>k. clk (n + k))"

definition DATETIME_MAX :: datetime where
  "DATETIME_MAX = 3652059 * 86400 * 1000000 - 1"

text \<open>
  \<open>timedelta(hours=h)\<close>, in microseconds. The constructor raises OverflowError when the
  number of whole days (floor division) has magnitude above 999999999.
\<close>

definition timedelta_hours :: "int \<Rightarrow> exception + int" where
  "timedelta_hours hours =
     (if - 999999999 \<le> hours div 24 \<and> hours div 24 \<le> 999999999
      then Inr (hours * 3600 * 1000000)
      else Inl OverflowError)"

text \<open>\<open>datetime - timedelta\<close> raises OverflowError when the result leaves year 1..9999.\<close>

definition datetime_sub :: "datetime \<Rightarrow> int \<Rightarrow> exception + datetime" where
  "datetime_sub t d =
     (if 0 \<le> t - d \<and> t - d \<le> DATETIME_MAX then Inr (t - d) else Inl OverflowError)"

definition round_half_even :: "rat \<Rightarrow> int" where
  "round_half_even x =
     (let f = \<lfloor>x\<rfloor>; d = x - of_int f
      in if d < 1 / 2 then f
         else if 1 / 2 < d then f + 1
         else if even f then f else f + 1)"

text \<open>
  \<open>round(x, ndigits)\<close> on a float: the exact value is rounded half-even to \<open>ndigits\<close>
  decimals, and the decimal is converted to the nearest float.
\<close>

definition py_round :: "(rat \<Rightarrow> rat) \<Rightarrow> rat \<Rightarrow> nat \<Rightarrow> rat" where
  "py_round rnd x ndigits = rnd (of_int (round_half_even (x * 10 ^ ndigits)) / 10 ^ ndigits)"

fun str_nat :: "nat \<Rightarrow> string" where
  "str_nat n =
     (if n < 10 then [''0123456789'' ! n]
      else str_nat (n div 10) @ [''0123456789'' ! (n mod 10)])"

declare str_nat.simps [simp del]

definition str_int :: "int \<Rightarrow> string" where
  "str_int i = (if i < 0 then CHR ''-'' # str_nat (nat (- i)) else str_nat (nat i))"


section \<open>app_health_checker.py\<close>

subsection \<open>Configuration and data\<close>

record app_config =
  cfg_name :: string
  cfg_url :: string
  cfg_expected_status :: "int option"
  cfg_timeout :: "int option"

definition APPLICATIONS :: "app_config list" where
  "APPLICATIONS =
     [\<lparr>cfg_name = ''Wisecow App'', cfg_url = ''http://3.94.125.204:31134'',
        cfg_expected_status = Some 200, cfg_timeout = Some 5\<rparr>,
      \<lparr>cfg_name = ''Example API'', cfg_url = ''https://httpbin.org/status/200'',
        cfg_expected_status = Some 200, cfg_timeout = Some 10\<rparr>]"

definition REPORT_FILE :: string where
  "REPORT_FILE = ''/var/log/app_health_report.json''"

datatype health = UP | DEGRADED | DOWN

text \<open>
  The dictionary \<open>status\<close> built by \<open>check_health\<close>. Keys that only some branches set
  (\<open>headers\<close>, \<open>error\<close>) and values that may be \<open>None\<close> are options.
\<close>

record check_result =
  st_timestamp :: datetime
  st_application :: string
  st_url :: string
  st_status_code :: "int option"
  st_expected_status :: int
  st_response_time_ms :: "rat option"
  st_health :: health
  st_message :: string
  st_headers :: "(string \<times> string) list option"
  st_error :: "string option"

text \<open>The attributes of an \<open>ApplicationHealthChecker\<close> object.\<close>

record checker =
  name :: string
  url :: string
  expected_status :: int
  timeout :: int
  history :: "check_result list"

definition init :: "app_config \<Rightarrow> checker" where
  "init app_config =
     \<lparr>name = cfg_name app_config,
      url = cfg_url app_config,
      expected_status = (case cfg_expected_status app_config of Some s \<Rightarrow> s | None \<Rightarrow> 200),
      timeout = (case cfg_timeout app_config of Some t \<Rightarrow> t | None \<Rightarrow> 5),
      history = []\<rparr>"

text \<open>
  What \<open>requests.get\<close> does, as seen by the \<open>try\<close> statement of \<open>check_health\<close>: it
  returns a response (status code, headers; the third argument is the elapsed time
  \<open>(time.time() - start_time) * 1000\<close> measured around it), or raises an exception that
  the first, second or third \<open>except\<close> clause catches, or raises any other exception.
\<close>

datatype get_outcome =
    Response int "(string \<times> string) list" rat
  | Timeout
  | ConnectionError string
  | RequestException string
  | Raises string

subsection \<open>The prober\<close>

definition status_messages :: "(int \<times> string) list" where
  "status_messages =
     [(200, ''OK - Application is functioning correctly''),
      (201, ''Created - Request successful''),
      (204, ''No Content - Request successful''),
      (301, ''Moved Permanently - Redirect''),
      (302, ''Found - Temporary redirect''),
      (400, ''Bad Request - Invalid request''),
      (401, ''Unauthorized - Authentication required''),
      (403, ''Forbidden - Access denied''),
      (404, ''Not Found - Resource does not exist''),
      (500, ''Internal Server Error - Application error''),
      (502, ''Bad Gateway - Upstream server error''),
      (503, ''Service Unavailable - Application temporarily unavailable''),
      (504, ''Gateway Timeout - Upstream timeout'')]"

definition get_status_message :: "int \<Rightarrow> string" where
  "get_status_message status_code =
     (case map_of status_messages status_code of
        Some m \<Rightarrow> m
      | None \<Rightarrow> ''HTTP '' @ str_int status_code)"

text \<open>
  \<open>check_health\<close>: \<open>now\<close> is the reading of the clock taken for the timestamp,
  \<open>outcome\<close> what the request did. The result is the returned dictionary and the
  checker with its history extended, or the exception that leaves the method.
\<close>

definition check_health ::
  "(rat \<Rightarrow> rat) \<Rightarrow> datetime \<Rightarrow> get_outcome \<Rightarrow> checker \<Rightarrow> exception + (check_result \<times> checker)"
where
  "check_health rnd now outcome self =
     (let failed = (\<lambda>msg err.
            \<lparr>st_timestamp = now, st_application = name self, st_url = url self,
             st_status_code = None, st_expected_status = expected_status self,
             st_response_time_ms = None, st_health = DOWN, st_message = msg,
             st_headers = None, st_error = Some err\<rparr>);
          store = (\<lambda>status. Inr (status, self\<lparr>history := history self @ [status]\<rparr>))
      in case outcome of
           Response code hdrs response_time \<Rightarrow>
             store
               \<lparr>st_timestamp = now, st_application = name self, st_url = url self,
                st_status_code = Some code, st_expected_status = expected_status self,
                st_response_time_ms = Some (py_round rnd response_time 2),
                st_health = (if code = expected_status self then UP else DEGRADED),
                st_message = get_status_message code,
                st_headers = Some hdrs, st_error = None\<rparr>
         | Timeout \<Rightarrow>
             store (failed (''Request timeout after '' @ str_int (timeout self) @ '' seconds'')
                      ''TIMEOUT'')
         | ConnectionError e \<Rightarrow>
             store (failed ''Connection failed - Application unreachable'' e)
         | RequestException e \<Rightarrow>
             store (failed ''Request failed'' e)
         | Raises e \<Rightarrow> Inl (Exception e))"

subsection \<open>Rolling uptime\<close>

text \<open>\<open>_is_recent\<close>, with the reading of the clock it takes as its first argument.\<close>

definition is_recent :: "datetime \<Rightarrow> datetime \<Rightarrow> int \<Rightarrow> exception + bool" where
  "is_recent now timestamp hours =
     (let check_time = timestamp
      in case timedelta_hours hours of
           Inl e \<Rightarrow> Inl e
         | Inr delta \<Rightarrow>
             (case datetime_sub now delta of
                Inl e \<Rightarrow> Inl e
              | Inr cutoff_time \<Rightarrow> Inr (cutoff_time < check_time)))"

text \<open>
  The list comprehension \<open>[h for h in self.history if self._is_recent(...)]\<close>: one
  reading of the clock per entry, in order; an exception ends the comprehension.
\<close>

fun recent_checks :: "clock \<Rightarrow> check_result list \<Rightarrow> int \<Rightarrow> exception + check_result list" where
  "recent_checks clk [] hours = Inr []"
| "recent_checks clk (h # hs) hours =
     (case is_recent (clk 0) (st_timestamp h) hours of
        Inl e \<Rightarrow> Inl e
      | Inr keep \<Rightarrow>
          (case recent_checks (advance 1 clk) hs hours of
             Inl e \<Rightarrow> Inl e
           | Inr rs \<Rightarrow> Inr (if keep then h # rs else rs)))"

definition get_uptime_percentage ::
  "(rat \<Rightarrow> rat) \<Rightarrow> clock \<Rightarrow> check_result list \<Rightarrow> int \<Rightarrow> exception + rat"
where
  "get_uptime_percentage rnd clk hist hours =
     (if hist = [] then Inr 0
      else case recent_checks clk hist hours of
             Inl e \<Rightarrow> Inl e
           | Inr recent \<Rightarrow>
               if recent = [] then Inr 0
               else let up_count = length (filter (\<lambda>h. st_health h = UP) recent)
                    in Inr (rnd (rnd (of_nat up_count / of_nat (length recent)) * 100)))"

subsection \<open>The reporter\<close>

record summary =
  sm_total_applications :: nat
  sm_up :: nat
  sm_degraded :: nat
  sm_down :: nat

record app_report =
  ar_name :: string
  ar_url :: string
  ar_current_status :: health
  ar_status_code :: "int option"
  ar_response_time_ms :: "rat option"
  ar_message :: string
  ar_uptime_24h :: rat
  ar_last_check :: datetime

record report =
  generated_at :: datetime
  summary :: summary
  applications :: "app_report list"

datatype log_level = LOG_INFO | LOG_WARNING | LOG_ERROR

type_synonym log_record = "log_level \<times> string"

text \<open>
  What \<open>open(REPORT_FILE, 'w')\<close> and \<open>json.dump\<close> do together: they complete, or one of
  them raises an exception, whose text is the argument.
\<close>

datatype write_outcome = Written | WriteFails string

text \<open>
  The body of the loop of \<open>generate_report\<close> for one checker: the counts of the summary
  are updated, the entry of the application is appended, and the entry is printed. The
  uptime is computed twice, once for the entry and once for the console; each computation
  reads the clock once per history entry and may raise.
\<close>

definition report_checker ::
  "(rat \<Rightarrow> rat) \<Rightarrow> clock \<Rightarrow> checker \<Rightarrow> report \<Rightarrow> exception + report"
where
  "report_checker rnd clk c rep =
     (let latest_status = last (history c); n = length (history c); s = summary rep
      in case get_uptime_percentage rnd clk (history c) 24 of
           Inl e \<Rightarrow> Inl e
         | Inr uptime \<Rightarrow>
             (case get_uptime_percentage rnd (advance n clk) (history c) 24 of
                Inl e \<Rightarrow> Inl e
              | Inr printed_uptime \<Rightarrow>
                  Inr (rep\<lparr>
                    summary :=
                      (if st_health latest_status = UP then s\<lparr>sm_up := sm_up s + 1\<rparr>
                       else if st_health latest_status = DEGRADED
                         then s\<lparr>sm_degraded := sm_degraded s + 1\<rparr>
                       else s\<lparr>sm_down := sm_down s + 1\<rparr>),
                    applications := applications rep @
                      [\<lparr>ar_name = name c, ar_url = url c,
                        ar_current_status = st_health latest_status,
                        ar_status_code = st_status_code latest_status,
                        ar_response_time_ms = st_response_time_ms latest_status,
                        ar_message = st_message latest_status,
                        ar_uptime_24h = py_round rnd uptime 2,
                        ar_last_check = st_timestamp latest_status\<rparr>]\<rparr>)))"

text \<open>The \<open>for checker in checkers\<close> loop; a checker with no history is passed over.\<close>

fun report_loop ::
  "(rat \<Rightarrow> rat) \<Rightarrow> clock \<Rightarrow> checker list \<Rightarrow> report \<Rightarrow> exception + report"
where
  "report_loop rnd clk [] rep = Inr rep"
| "report_loop rnd clk (c # cs) rep =
     (if history c = [] then report_loop rnd clk cs rep
      else case report_checker rnd clk c rep of
             Inl e \<Rightarrow> Inl e
           | Inr rep' \<Rightarrow> report_loop rnd (advance (2 * length (history c)) clk) cs rep')"

text \<open>
  \<open>generate_report\<close> returns the report and the log records of the \<open>try\<close> statement
  around the file, or the exception that leaves the function. The clock is read once for
  \<open>generated_at\<close> and once for the printed header before the loop starts.
\<close>

definition generate_report ::
  "(rat \<Rightarrow> rat) \<Rightarrow> clock \<Rightarrow> write_outcome \<Rightarrow> checker list
     \<Rightarrow> exception + (report \<times> log_record list)"
where
  "generate_report rnd clk written checkers =
     (let report0 =
            \<lparr>generated_at = clk 0,
             summary = \<lparr>sm_total_applications = length checkers,
                        sm_up = 0, sm_degraded = 0, sm_down = 0\<rparr>,
             applications = []\<rparr>
      in case report_loop rnd (advance 2 clk) checkers report0 of
           Inl e \<Rightarrow> Inl e
         | Inr rep \<Rightarrow>
             (case written of
                Written \<Rightarrow> Inr (rep, [(LOG_INFO, ''Report saved to '' @ REPORT_FILE)])
              | WriteFails e \<Rightarrow> Inr (rep, [(LOG_ERROR, ''Failed to save report: '' @ e)])))"

subsection \<open>The run driver\<close>

text \<open>
  The loop \<open>for checker in checkers: checker.check_health()\<close>. \<open>get i\<close> is what the
  request of the \<open>i\<close>-th checker does; each check reads the clock once.
\<close>

fun run_checks ::
  "(rat \<Rightarrow> rat) \<Rightarrow> clock \<Rightarrow> (nat \<Rightarrow> get_outcome) \<Rightarrow> nat \<Rightarrow> checker list
     \<Rightarrow> exception + checker list"
where
  "run_checks rnd clk get i [] = Inr []"
| "run_checks rnd clk get i (c # cs) =
     (case check_health rnd (clk 0) (get i) c of
        Inl e \<Rightarrow> Inl e
      | Inr (status, c') \<Rightarrow>
          (case run_checks rnd (advance 1 clk) get (Suc i) cs of
             Inl e \<Rightarrow> Inl e
           | Inr cs' \<Rightarrow> Inr (c' # cs')))"

text \<open>
  \<open>main\<close> of app_health_checker.py, as the exit code of the process. \<open>sys.exit\<close> raises
  \<open>SystemExit\<close>, which \<open>except Exception\<close> does not catch, so the codes 0 and 1 of the
  \<open>try\<close> block leave the process unchanged; every \<open>exception\<close> of the model is caught
  and becomes code 2. The configuration \<open>APPLICATIONS\<close> is the argument \<open>apps\<close>.
\<close>

definition app_health_checker_main ::
  "(rat \<Rightarrow> rat) \<Rightarrow> clock \<Rightarrow> (nat \<Rightarrow> get_outcome) \<Rightarrow> write_outcome \<Rightarrow> app_config list \<Rightarrow> int"
where
  "app_health_checker_main rnd clk get written apps =
     (let checkers = map init apps
      in case run_checks rnd clk get 0 checkers of
           Inl e \<Rightarrow> 2
         | Inr checked \<Rightarrow>
             (case generate_report rnd (advance (length checkers) clk) written checked of
                Inl e \<Rightarrow> 2
              | Inr (rep, logged) \<Rightarrow>
                  if 0 < sm_down (summary rep) then 1
                  else if 0 < sm_degraded (summary rep) then 0
                  else 0))"


section \<open>system_health_monitor.py\<close>

text \<open>
  The file is not a Python program. On line 132, in \<open>check_running_processes\<close>, the
  value of \<open>details\<close> is an f-string whose first replacement field holds an inner
  f-string delimited by a backslash and a double quote. \<open>DETAILS_FSTRING\<close> is the text
  of that f-string between its outer double quotes; the backslash is \<open>CHR 0x5C\<close>, the
  double quote \<open>CHR 0x22\<close>.
\<close>

definition DETAILS_FSTRING :: string where
  "DETAILS_FSTRING =
     ''Top CPU consumers: {[f'' @ [CHR 0x5C, CHR 0x22] @ ''{p['name']}({p['cpu_percent']:.1f}%)''
     @ [CHR 0x5C, CHR 0x22] @ '' for p in top_processes]}''"

text \<open>
  The text that follows the opening brace of the first replacement field of an f-string;
  a doubled brace is a literal brace and opens no field.
\<close>

fun replacement_field :: "string \<Rightarrow> string option" where
  "replacement_field (c # d # cs) =
     (if c = CHR ''{''
      then (if d = CHR ''{'' then replacement_field cs else Some (d # cs))
      else replacement_field (d # cs))"
| "replacement_field cs = None"

text \<open>
  The start of the expression of a replacement field: the text before the first quote,
  colon, exclamation mark or closing brace. It lies outside every nested string literal
  and before any conversion or format specification.
\<close>

definition expression_start :: "string \<Rightarrow> string" where
  "expression_start field =
     takeWhile (\<lambda>c. c \<notin> set [CHR 0x22, CHR 0x27, CHR '':'', CHR ''!'', CHR ''}'']) field"

text \<open>
  A condition under which every version of Python 3 rejects an f-string: a backslash at
  the start of the expression of its first replacement field, in a string without a
  line break. Up to Python 3.11 the expression part of an f-string cannot include a
  backslash at all; from Python 3.12 on the expression is read as ordinary code, where a
  backslash outside a string literal must be followed by the end of the line.
\<close>

definition fstring_rejected :: "string \<Rightarrow> bool" where
  "fstring_rejected body =
     (case replacement_field body of
        None \<Rightarrow> False
      | Some field \<Rightarrow> CHR 0x5C \<in> set (expression_start field) \<and> CHR 0x0A \<notin> set body)"

text \<open>
  What psutil would sample on the host, were a check to run: the CPU and memory
  percentages, for each partition its mount point and what sampling its usage does
  (a percentage, or a permission error), and the number of processes.
\<close>

datatype usage_outcome = Usage rat | PermissionError

record psutil_samples =
  s_cpu_percent :: rat
  s_memory_percent :: rat
  s_partitions :: "(string \<times> usage_outcome) list"
  s_process_count :: int

datatype level = OK | WARNING | CRITICAL

text \<open>
  What a run of the script leaves behind: the exit status of the process, and the metric
  and status of every check result that it reports.
\<close>

record run_outcome =
  exit_status :: int
  reported :: "(string \<times> level) list"

text \<open>
  \<open>python3 system_health_monitor.py\<close>. The interpreter compiles the whole file before
  it runs its first statement. The rejected f-string makes the compilation raise
  \<open>SyntaxError\<close>, which nothing can catch: the process ends with status 1, no logger
  is set up, no check runs, \<open>main\<close> is not reached, and the samples play no part.
  \<open>None\<close> stands for the run of a compiled module, which has no model, line 132 having
  no meaning as Python.
\<close>

definition system_health_monitor_script :: "psutil_samples \<Rightarrow> run_outcome option" where
  "system_health_monitor_script samples =
     (if fstring_rejected DETAILS_FSTRING
      then Some \<lparr>exit_status = 1, reported = []\<rparr>
      else None)"


section \<open>The specified window, and concrete environments\<close>

text \<open>
  The rolling uptime as the specification words it, for comparison with
  \<open>get_uptime_percentage\<close>: the window is the closed interval from \<open>now - hours\<close> to
  \<open>now\<close>, the result the share of its entries whose verdict is \<open>UP\<close>, and 0 when the
  window holds no entry.
\<close>

definition closed_window_uptime ::
  "(rat \<Rightarrow> rat) \<Rightarrow> datetime \<Rightarrow> check_result list \<Rightarrow> int \<Rightarrow> rat"
where
  "closed_window_uptime rnd now hist hours =
     (let in_window = filter (\<lambda>h. now - hours * 3600 * 1000000 \<le> st_timestamp h
                                    \<and> st_timestamp h \<le> now) hist
      in if in_window = [] then 0
         else rnd (rnd (of_nat (length (filter (\<lambda>h. st_health h = UP) in_window))
                        / of_nat (length in_window)) * 100))"

text \<open>
  Environments for the examples: arithmetic without rounding error, a clock that stands
  still, and a network that treats every request alike.
\<close>

definition exact :: "rat \<Rightarrow> rat" where
  "exact x = x"

definition fixed_clock :: "datetime \<Rightarrow> clock" where
  "fixed_clock t = (\<lambda>k. t)"

definition always :: "get_outcome \<Rightarrow> nat \<Rightarrow> get_outcome" where
  "always outcome = (\<lambda>i. outcome)"

text \<open>A history entry of the first application with a given timestamp and verdict.\<close>

definition entry :: "datetime \<Rightarrow> health \<Rightarrow> check_result" where
  "entry t verdict =
     \<lparr>st_timestamp = t, st_application = ''Wisecow App'',
      st_url = ''http://3.94.125.204:31134'', st_status_code = None,
      st_expected_status = 200, st_response_time_ms = None, st_health = verdict,
      st_message = [], st_headers = None, st_error = None\<rparr>"

text \<open>
  A clock is usable for the 24 hour window of the report when every reading lies at least
  one day after the smallest \<open>datetime\<close> and is itself a \<open>datetime\<close>.
\<close>

definition report_clock :: "clock \<Rightarrow> bool" where
  "report_clock clk = (\<forall>k. 86400000000 \<le> clk k \<and> clk k \<le> DATETIME_MAX)"


section \<open>Properties of the HTTP prober\<close>

text \<open>
  C1. When a response is received, \<open>check_health\<close> returns a result whose verdict is
  \<open>UP\<close> exactly when the status code of the response equals the expected status of the
  target, and \<open>DEGRADED\<close> exactly when it differs; the verdict is never \<open>DOWN\<close>,
  whatever the code is.
\<close>

theorem check_health_response_verdict:
  "\<exists>status self'.
     check_health rnd now (Response code hdrs response_time) self = Inr (status, self')
     \<and> (st_health status = UP) = (code = expected_status self)
     \<and> (st_health status = DEGRADED) = (code \<noteq> expected_status self)
     \<and> st_health status \<noteq> DOWN
     \<and> st_status_code status = Some code"
  by (simp add: check_health_def)

lemma service_unavailable_example:
  "map_sum id fst (check_health exact 0 (Response 503 [] 120) (init (hd APPLICATIONS)))
     = Inr \<lparr>st_timestamp = 0, st_application = ''Wisecow App'',
            st_url = ''http://3.94.125.204:31134'', st_status_code = Some 503,
            st_expected_status = 200, st_response_time_ms = Some 120, st_health = DEGRADED,
            st_message = ''Service Unavailable - Application temporarily unavailable'',
            st_headers = Some [], st_error = None\<rparr>"
  by (simp add: check_health_def init_def APPLICATIONS_def get_status_message_def
      status_messages_def py_round_def round_half_even_def exact_def)

text \<open>
  C6. When the request times out, \<open>check_health\<close> returns (the exception does not leave
  the method) a result with verdict \<open>DOWN\<close>, a message that contains the configured
  timeout, no response time, no status code, and the error \<open>TIMEOUT\<close>.
\<close>

theorem check_health_timeout:
  "\<exists>status self'.
     check_health rnd now Timeout self = Inr (status, self')
     \<and> st_health status = DOWN
     \<and> st_message status = ''Request timeout after '' @ str_int (timeout self) @ '' seconds''
     \<and> st_response_time_ms status = None
     \<and> st_status_code status = None
     \<and> st_error status = Some ''TIMEOUT''"
  by (simp add: check_health_def)

lemma timeout_message_example:
  "map_sum id (st_message \<circ> fst) (check_health exact 0 Timeout (init (hd APPLICATIONS)))
     = Inr ''Request timeout after 5 seconds''"
  by (simp add: check_health_def init_def APPLICATIONS_def str_int_def str_nat.simps)

text \<open>
  C7. A call of \<open>check_health\<close> that returns, in the success branch and in each of the
  three recovered failure branches, leaves a checker whose history is the old history
  with exactly the returned result appended: one entry longer, the old entries unchanged
  and in place. Only an exception outside the three handled kinds leaves the method, and
  then nothing is returned. The other operations on a checker, \<open>get_uptime_percentage\<close>
  and \<open>generate_report\<close>, read the history and return no checker.
\<close>

theorem check_health_appends_one:
  "case outcome of
     Raises e \<Rightarrow> check_health rnd now outcome self = Inl (Exception e)
   | _ \<Rightarrow> \<exists>status self'.
             check_health rnd now outcome self = Inr (status, self')
             \<and> self' = self\<lparr>history := history self @ [status]\<rparr>
             \<and> length (history self') = length (history self) + 1
             \<and> take (length (history self)) (history self') = history self
             \<and> last (history self') = status"
  by (cases outcome) (simp_all add: check_health_def)


section \<open>Properties of the reporter and of the run driver\<close>

lemma advance_advance: "advance m (advance n clk) = advance (n + m) clk"
  by (simp add: advance_def add.assoc)

lemma report_clock_advance: "report_clock clk \<Longrightarrow> report_clock (advance n clk)"
  by (simp add: report_clock_def advance_def)

lemma is_recent_24: 
  "86400000000 \<le> now \<Longrightarrow> now \<le> DATETIME_MAX \<Longrightarrow>
     is_recent now ts 24 = Inr (now - 86400000000 < ts)"
  by (simp add: is_recent_def timedelta_hours_def datetime_sub_def DATETIME_MAX_def)

lemma recent_checks_24:
  "report_clock clk \<Longrightarrow> \<exists>rs. recent_checks clk hist 24 = Inr rs"
proof (induction hist arbitrary: clk)
  case Nil
  then show ?case by simp
next
  case (Cons h hs)
  from Cons.prems have now: "86400000000 \<le> clk 0" "clk 0 \<le> DATETIME_MAX"
    by (simp_all add: report_clock_def)
  from Cons.IH [OF report_clock_advance [OF Cons.prems], of 1]
  obtain rs where "recent_checks (advance 1 clk) hs 24 = Inr rs" by blast
  then show ?case by (simp add: is_recent_24 [OF now])
qed

lemma get_uptime_percentage_24:
  "report_clock clk \<Longrightarrow> \<exists>v. get_uptime_percentage rnd clk hist 24 = Inr v"
  using recent_checks_24 [of clk hist]
  by (auto simp: get_uptime_percentage_def Let_def)

lemma report_checker_counts:
  assumes "report_clock clk"
  shows "\<exists>rep'. report_checker rnd clk c rep = Inr rep'
     \<and> sm_down (summary rep') = sm_down (summary rep)
         + (if st_health (last (history c)) = DOWN then 1 else 0)
     \<and> sm_degraded (summary rep') = sm_degraded (summary rep)
         + (if st_health (last (history c)) = DEGRADED then 1 else 0)
     \<and> sm_up (summary rep') = sm_up (summary rep)
         + (if st_health (last (history c)) = UP then 1 else 0)"
proof -
  obtain v where v: "get_uptime_percentage rnd clk (history c) 24 = Inr v"
    using get_uptime_percentage_24 [OF assms] by blast
  obtain w where w: "get_uptime_percentage rnd (advance (length (history c)) clk) (history c) 24 = Inr w"
    using get_uptime_percentage_24 [OF report_clock_advance [OF assms]] by blast
  show ?thesis
    by (cases "st_health (last (history c))") (simp_all add: report_checker_def Let_def v w)
qed

lemma report_loop_counts:
  assumes "report_clock clk"
  shows "\<exists>rep'. report_loop rnd clk checkers rep = Inr rep'
     \<and> sm_down (summary rep') = sm_down (summary rep)
         + length (filter (\<lambda>c. history c \<noteq> [] \<and> st_health (last (history c)) = DOWN) checkers)
     \<and> sm_degraded (summary rep') = sm_degraded (summary rep)
         + length (filter (\<lambda>c. history c \<noteq> [] \<and> st_health (last (history c)) = DEGRADED) checkers)
     \<and> sm_up (summary rep') = sm_up (summary rep)
         + length (filter (\<lambda>c. history c \<noteq> [] \<and> st_health (last (history c)) = UP) checkers)"
  using assms
proof (induction checkers arbitrary: clk rep)
  case Nil
  then show ?case by simp
next
  case (Cons c cs)
  show ?case
  proof (cases "history c = []")
    case True
    with Cons.IH [OF Cons.prems, of rep] show ?thesis by simp
  next
    case False
    from report_checker_counts [OF Cons.prems, of rnd c rep] obtain rep1 where
      rep1: "report_checker rnd clk c rep = Inr rep1"
        "sm_down (summary rep1) = sm_down (summary rep)
           + (if st_health (last (history c)) = DOWN then 1 else 0)"
        "sm_degraded (summary rep1) = sm_degraded (summary rep)
           + (if st_health (last (history c)) = DEGRADED then 1 else 0)"
        "sm_up (summary rep1) = sm_up (summary rep)
           + (if st_health (last (history c)) = UP then 1 else 0)"
      by blast
    from Cons.IH [OF report_clock_advance [OF Cons.prems], of "2 * length (history c)" rep1]
    obtain rep2 where
      rep2: "report_loop rnd (advance (2 * length (history c)) clk) cs rep1 = Inr rep2"
        "sm_down (summary rep2) = sm_down (summary rep1)
           + length (filter (\<lambda>c. history c \<noteq> [] \<and> st_health (last (history c)) = DOWN) cs)"
        "sm_degraded (summary rep2) = sm_degraded (summary rep1)
           + length (filter (\<lambda>c. history c \<noteq> [] \<and> st_health (last (history c)) = DEGRADED) cs)"
        "sm_up (summary rep2) = sm_up (summary rep1)
           + length (filter (\<lambda>c. history c \<noteq> [] \<and> st_health (last (history c)) = UP) cs)"
      by blast
    have "report_loop rnd clk (c # cs) rep = Inr rep2"
      using False rep1(1) rep2(1) by simp
    then show ?thesis
      using False rep1(2-4) rep2(2-4) by simp
  qed
qed

lemma generate_report_counts:
  assumes "report_clock clk"
  shows "\<exists>rep logged. generate_report rnd clk written checkers = Inr (rep, logged)
     \<and> sm_down (summary rep)
         = length (filter (\<lambda>c. history c \<noteq> [] \<and> st_health (last (history c)) = DOWN) checkers)
     \<and> sm_degraded (summary rep)
         = length (filter (\<lambda>c. history c \<noteq> [] \<and> st_health (last (history c)) = DEGRADED) checkers)
     \<and> sm_up (summary rep)
         = length (filter (\<lambda>c. history c \<noteq> [] \<and> st_health (last (history c)) = UP) checkers)"
proof -
  let ?rep0 = "\<lparr>generated_at = clk 0,
             summary = \<lparr>sm_total_applications = length checkers,
                        sm_up = 0, sm_degraded = 0, sm_down = 0\<rparr>,
             applications = []\<rparr>"
  from report_loop_counts [OF report_clock_advance [OF assms], of rnd 2 checkers ?rep0]
  obtain rep where rep: "report_loop rnd (advance 2 clk) checkers ?rep0 = Inr rep"
    "sm_down (summary rep)
         = length (filter (\<lambda>c. history c \<noteq> [] \<and> st_health (last (history c)) = DOWN) checkers)"
    "sm_degraded (summary rep)
         = length (filter (\<lambda>c. history c \<noteq> [] \<and> st_health (last (history c)) = DEGRADED) checkers)"
    "sm_up (summary rep)
         = length (filter (\<lambda>c. history c \<noteq> [] \<and> st_health (last (history c)) = UP) checkers)"
    by auto
  show ?thesis
    by (cases written) (simp_all add: generate_report_def Let_def rep)
qed

lemma check_health_cases:
  "(\<exists>e. outcome = Raises e \<and> check_health rnd now outcome self = Inl (Exception e))
   \<or> (\<exists>status. check_health rnd now outcome self
          = Inr (status, self\<lparr>history := history self @ [status]\<rparr>))"
  by (cases outcome) (simp_all add: check_health_def)

lemma run_checks_raises:
  assumes "k < length cs" "check_health rnd (clk k) (get (i + k)) (cs ! k) = Inl e"
  shows "\<exists>e'. run_checks rnd clk get i cs = Inl e'"
  using assms
proof (induction cs arbitrary: clk i k)
  case Nil
  then show ?case by simp
next
  case (Cons c cs)
  show ?case
  proof (cases k)
    case 0
    with Cons.prems show ?thesis by simp
  next
    case (Suc j)
    with Cons.prems have "j < length cs"
      "check_health rnd (advance 1 clk j) (get (Suc i + j)) (cs ! j) = Inl e"
      by (simp_all add: advance_def)
    from Cons.IH [of j "advance 1 clk" "Suc i", OF this] obtain e' where
      "run_checks rnd (advance 1 clk) get (Suc i) cs = Inl e'" by blast
    then show ?thesis by (auto split: sum.splits)
  qed
qed

lemma run_checks_returns:
  assumes "\<forall>k<length cs. \<forall>e. check_health rnd (clk k) (get (i + k)) (cs ! k) \<noteq> Inl e"
  shows "\<exists>cs'. run_checks rnd clk get i cs = Inr cs' \<and> length cs' = length cs
     \<and> (\<forall>k<length cs. \<exists>status.
           check_health rnd (clk k) (get (i + k)) (cs ! k) = Inr (status, cs' ! k)
           \<and> cs' ! k = (cs ! k)\<lparr>history := history (cs ! k) @ [status]\<rparr>)"
  using assms
proof (induction cs arbitrary: clk i)
  case Nil
  then show ?case by simp
next
  case (Cons c cs)
  from Cons.prems have "\<forall>e. check_health rnd (clk 0) (get i) c \<noteq> Inl e"
    by fastforce
  with check_health_cases [of "get i" rnd "clk 0" c] obtain status where
    st: "check_health rnd (clk 0) (get i) c = Inr (status, c\<lparr>history := history c @ [status]\<rparr>)"
    by auto
  have "\<forall>k<length cs. \<forall>e. check_health rnd (advance 1 clk k) (get (Suc i + k)) (cs ! k) \<noteq> Inl e"
  proof (intro allI impI)
    fix k e assume "k < length cs"
    with Cons.prems have "check_health rnd (clk (Suc k)) (get (i + Suc k)) ((c # cs) ! Suc k) \<noteq> Inl e"
      by (metis Suc_less_eq length_Cons)
    then show "check_health rnd (advance 1 clk k) (get (Suc i + k)) (cs ! k) \<noteq> Inl e"
      by (simp add: advance_def)
  qed
  from Cons.IH [of "advance 1 clk" "Suc i", OF this] obtain cs' where
    cs': "run_checks rnd (advance 1 clk) get (Suc i) cs = Inr cs'" "length cs' = length cs"
      "\<forall>k<length cs. \<exists>status.
           check_health rnd (advance 1 clk k) (get (Suc i + k)) (cs ! k) = Inr (status, cs' ! k)
           \<and> cs' ! k = (cs ! k)\<lparr>history := history (cs ! k) @ [status]\<rparr>"
    by blast
  let ?c' = "c\<lparr>history := history c @ [status]\<rparr>"
  have run: "run_checks rnd clk get i (c # cs) = Inr (?c' # cs')"
    using st cs'(1) by simp
  have "\<exists>status. check_health rnd (clk k) (get (i + k)) ((c # cs) ! k) = Inr (status, (?c' # cs') ! k)
           \<and> (?c' # cs') ! k = ((c # cs) ! k)\<lparr>history := history ((c # cs) ! k) @ [status]\<rparr>"
    if "k < length (c # cs)" for k
  proof (cases k)
    case 0
    then show ?thesis using st by simp
  next
    case (Suc j)
    with that have "j < length cs" by simp
    with cs'(3) Suc show ?thesis by (simp add: advance_def)
  qed
  with run cs'(2) show ?case by simp
qed

lemma app_main_exit_code:
  assumes clk: "report_clock clk"
  shows "app_health_checker_main rnd clk get written apps =
     (if \<exists>i<length apps. \<exists>e. check_health rnd (clk i) (get i) (init (apps ! i)) = Inl e then 2
      else if \<exists>i<length apps. \<exists>status self'.
                check_health rnd (clk i) (get i) (init (apps ! i)) = Inr (status, self')
                \<and> st_health status = DOWN then 1
      else 0)"
proof (cases "\<exists>i<length apps. \<exists>e. check_health rnd (clk i) (get i) (init (apps ! i)) = Inl e")
  case True
  then obtain i e where i: "i < length (map init apps)"
    "check_health rnd (clk i) (get (0 + i)) (map init apps ! i) = Inl e"
    by auto
  from run_checks_raises [where k = i and cs = "map init apps" and clk = clk and get = get
      and i = 0, OF i] obtain e' where
    "run_checks rnd clk get 0 (map init apps) = Inl e'" by blast
  with True show ?thesis by (simp add: app_health_checker_main_def)
next
  case False
  then have "\<forall>k<length (map init apps). \<forall>e.
      check_health rnd (clk k) (get (0 + k)) (map init apps ! k) \<noteq> Inl e"
    by simp
  from run_checks_returns [where cs = "map init apps" and clk = clk and get = get
      and i = 0, OF this] obtain cs' where
    cs': "run_checks rnd clk get 0 (map init apps) = Inr cs'" "length cs' = length apps"
      "\<forall>k<length apps. \<exists>status.
           check_health rnd (clk k) (get k) (init (apps ! k)) = Inr (status, cs' ! k)
           \<and> cs' ! k = (init (apps ! k))\<lparr>history := [status]\<rparr>"
    by (auto simp: init_def)
  from generate_report_counts [OF report_clock_advance [OF clk], of rnd "length apps" written cs']
  obtain rep logged where
    rep: "generate_report rnd (advance (length apps) clk) written cs' = Inr (rep, logged)"
      "sm_down (summary rep)
         = length (filter (\<lambda>c. history c \<noteq> [] \<and> st_health (last (history c)) = DOWN) cs')"
    by blast
  have main: "app_health_checker_main rnd clk get written apps
      = (if 0 < sm_down (summary rep) then 1 else 0)"
    by (simp add: app_health_checker_main_def cs'(1) rep(1))
  have "(0 < sm_down (summary rep)) =
      (\<exists>i<length apps. \<exists>status self'.
          check_health rnd (clk i) (get i) (init (apps ! i)) = Inr (status, self')
          \<and> st_health status = DOWN)"
  proof
    assume "0 < sm_down (summary rep)"
    then obtain c where c: "c \<in> set cs'" "history c \<noteq> []" "st_health (last (history c)) = DOWN"
      unfolding rep(2) length_greater_0_conv by (metis (mono_tags, lifting) filter_False)
    then obtain k where k: "k < length apps" "cs' ! k = c"
      using cs'(2) by (auto simp: in_set_conv_nth)
    from cs'(3) k obtain status where
      "check_health rnd (clk k) (get k) (init (apps ! k)) = Inr (status, c)"
      "c = (init (apps ! k))\<lparr>history := [status]\<rparr>"
      by auto
    with c k show "\<exists>i<length apps. \<exists>status self'.
          check_health rnd (clk i) (get i) (init (apps ! i)) = Inr (status, self')
          \<and> st_health status = DOWN"
      by auto
  next
    assume "\<exists>i<length apps. \<exists>status self'.
          check_health rnd (clk i) (get i) (init (apps ! i)) = Inr (status, self')
          \<and> st_health status = DOWN"
    then obtain i status self' where i: "i < length apps"
      "check_health rnd (clk i) (get i) (init (apps ! i)) = Inr (status, self')"
      "st_health status = DOWN"
      by blast
    from cs'(3) i(1,2) have "cs' ! i = (init (apps ! i))\<lparr>history := [status]\<rparr>"
      by auto
    with i(3) have "history (cs' ! i) \<noteq> [] \<and> st_health (last (history (cs' ! i))) = DOWN"
      by simp
    moreover from i(1) cs'(2) have "cs' ! i \<in> set cs'" by simp
    ultimately have "filter (\<lambda>c. history c \<noteq> [] \<and> st_health (last (history c)) = DOWN) cs' \<noteq> []"
      by (metis (mono_tags, lifting) filter_empty_conv)
    then show "0 < sm_down (summary rep)" by (simp add: rep(2))
  qed
  with main False show ?thesis by simp
qed

lemma report_clock_fixed: "report_clock (fixed_clock 63900000000000000)"
  by (simp add: report_clock_def fixed_clock_def DATETIME_MAX_def)

lemma app_main_exit_code_examples:
  "app_health_checker_main exact (fixed_clock 63900000000000000) (always Timeout) Written
       APPLICATIONS = 1"
  "app_health_checker_main exact (fixed_clock 63900000000000000) (always (Response 200 [] 120))
       Written APPLICATIONS = 0"
  "app_health_checker_main exact (fixed_clock 63900000000000000) (always (Raises ''boom''))
       Written APPLICATIONS = 2"
proof -
  have two: "\<exists>i. i < length APPLICATIONS"
    by (auto simp: APPLICATIONS_def)
  show "app_health_checker_main exact (fixed_clock 63900000000000000) (always Timeout) Written
       APPLICATIONS = 1"
    by (simp add: app_main_exit_code [OF report_clock_fixed] two check_health_def always_def)
  show "app_health_checker_main exact (fixed_clock 63900000000000000)
       (always (Response 200 [] 120)) Written APPLICATIONS = 0"
    by (simp add: app_main_exit_code [OF report_clock_fixed] two check_health_def always_def)
  show "app_health_checker_main exact (fixed_clock 63900000000000000)
       (always (Raises ''boom'')) Written APPLICATIONS = 2"
    by (simp add: app_main_exit_code [OF report_clock_fixed] two check_health_def always_def)
qed

text \<open>
  The exit code of a run in which the first target answers 503 where 200 is expected and
  the second answers 200: the only anomaly is a \<open>DEGRADED\<close> target, and the code is 0,
  not 1.
\<close>

theorem degraded_only_exit_counterexample:
  "map_sum id (st_health \<circ> fst)
     (check_health exact 63900000000000000 (Response 503 [] 120)
        (init (APPLICATIONS ! 0))) = Inr DEGRADED
   \<and> map_sum id (st_health \<circ> fst)
     (check_health exact 63900000000000000 (Response 200 [] 120)
        (init (APPLICATIONS ! 1))) = Inr UP
   \<and> app_health_checker_main exact (fixed_clock 63900000000000000)
       ((always (Response 200 [] 120)) (0 := Response 503 [] 120)) Written APPLICATIONS = 0
   \<and> app_health_checker_main exact (fixed_clock 63900000000000000)
       ((always (Response 200 [] 120)) (0 := Response 503 [] 120)) Written APPLICATIONS \<noteq> 1"
proof -
  have two: "(\<exists>i<length APPLICATIONS. P i) = (P 0 \<or> P 1)" for P
    by (auto simp: APPLICATIONS_def less_Suc_eq)
  have "app_health_checker_main exact (fixed_clock 63900000000000000)
       ((always (Response 200 [] 120)) (0 := Response 503 [] 120)) Written APPLICATIONS = 0"
    by (simp add: app_main_exit_code [OF report_clock_fixed] two check_health_def always_def)
  then show ?thesis
    by (simp add: check_health_def always_def APPLICATIONS_def init_def)
qed

text \<open>
  C5, as the code has it. With a clock that is usable for the report, the HTTP driver
  exits with code 0 exactly when every target produced a result that is \<open>UP\<close> or
  \<open>DEGRADED\<close>, with code 1 exactly when every check returned and some result is
  \<open>DOWN\<close>, and with code 2 exactly when a check raised an exception that
  \<open>check_health\<close> does not handle. A \<open>DEGRADED\<close> target alone therefore gives code 0.
\<close>

theorem degraded_alone_exits_zero:
  assumes "report_clock clk"
  shows "(app_health_checker_main rnd clk get written apps = 0) =
       (\<forall>i<length apps. \<exists>status self'.
          check_health rnd (clk i) (get i) (init (apps ! i)) = Inr (status, self')
          \<and> (st_health status = UP \<or> st_health status = DEGRADED))
     \<and> (app_health_checker_main rnd clk get written apps = 1) =
       ((\<forall>i<length apps. \<exists>r. check_health rnd (clk i) (get i) (init (apps ! i)) = Inr r)
        \<and> (\<exists>i<length apps. \<exists>status self'.
          check_health rnd (clk i) (get i) (init (apps ! i)) = Inr (status, self')
          \<and> st_health status = DOWN))
     \<and> (app_health_checker_main rnd clk get written apps = 2) =
       (\<exists>i<length apps. \<exists>e. check_health rnd (clk i) (get i) (init (apps ! i)) = Inl e)"
proof -
  let ?chk = "\<lambda>i. check_health rnd (clk i) (get i) (init (apps ! i))"
  let ?raises = "\<exists>i<length apps. \<exists>e. ?chk i = Inl e"
  let ?down = "\<exists>i<length apps. \<exists>status self'. ?chk i = Inr (status, self') \<and> st_health status = DOWN"
  note main = app_main_exit_code [OF assms, of rnd get written apps]
  have returns: "(\<not> ?raises) = (\<forall>i<length apps. \<exists>r. ?chk i = Inr r)"
    by (metis sum.exhaust sum.distinct(1))
  have zero: "(\<not> ?raises \<and> \<not> ?down) =
      (\<forall>i<length apps. \<exists>status self'. ?chk i = Inr (status, self')
          \<and> (st_health status = UP \<or> st_health status = DEGRADED))"
  proof
    assume a: "\<not> ?raises \<and> \<not> ?down"
    show "\<forall>i<length apps. \<exists>status self'. ?chk i = Inr (status, self')
          \<and> (st_health status = UP \<or> st_health status = DEGRADED)"
    proof (intro allI impI)
      fix i assume i: "i < length apps"
      with a returns obtain status self' where r: "?chk i = Inr (status, self')"
        by (metis surj_pair)
      with a i have "st_health status \<noteq> DOWN" by blast
      then have "st_health status = UP \<or> st_health status = DEGRADED"
        by (cases "st_health status") simp_all
      with r show "\<exists>status self'. ?chk i = Inr (status, self')
          \<and> (st_health status = UP \<or> st_health status = DEGRADED)" by blast
    qed
  next
    assume b: "\<forall>i<length apps. \<exists>status self'. ?chk i = Inr (status, self')
          \<and> (st_health status = UP \<or> st_health status = DEGRADED)"
    have "\<not> ?raises"
    proof
      assume ?raises
      then obtain i e where "i < length apps" "?chk i = Inl e" by blast
      with b show False by fastforce
    qed
    moreover have "\<not> ?down"
    proof
      assume ?down
      then obtain i status self' where "i < length apps" "?chk i = Inr (status, self')"
        "st_health status = DOWN" by blast
      with b show False by fastforce
    qed
    ultimately show "\<not> ?raises \<and> \<not> ?down" by simp
  qed
  have c0: "(app_health_checker_main rnd clk get written apps = 0) = (\<not> ?raises \<and> \<not> ?down)"
    unfolding main by simp
  have c1: "(app_health_checker_main rnd clk get written apps = 1) = (\<not> ?raises \<and> ?down)"
    unfolding main by simp
  have c2: "(app_health_checker_main rnd clk get written apps = 2) = ?raises"
    unfolding main by simp
  from c0 c1 c2 zero returns show ?thesis by simp
qed

theorem degraded_alone_exits_zero_witness:
  "app_health_checker_main exact (fixed_clock 63900000000000000)
       (always (Response 503 [] 120)) Written APPLICATIONS = 0"
proof -
  have two: "(\<forall>i<length APPLICATIONS. P i) = (P 0 \<and> P 1)" for P
    by (auto simp: APPLICATIONS_def less_Suc_eq)
  from degraded_alone_exits_zero [OF report_clock_fixed, of exact
      "always (Response 503 [] 120)" Written APPLICATIONS]
  show ?thesis
    by (simp add: two check_health_def always_def APPLICATIONS_def init_def)
qed

text \<open>
  C9. When writing the report file fails, with a clock that is usable for the report,
  \<open>generate_report\<close> still returns: it returns the report that it returns when the
  write succeeds, whose counts are those of the latest results of the checkers, and the
  one log record it adds has level error and carries the text of the failure. The exit
  code of the run is the one that the results of the checks give, the same as with a
  successful write. Whatever the clock, where building the report raises, it raises the
  same exception for both outcomes of the write.
\<close>

theorem report_write_failure_is_harmless:
  "(report_clock clk \<longrightarrow>
      (\<exists>rep.
         generate_report rnd clk (WriteFails e) checkers
           = Inr (rep, [(LOG_ERROR, ''Failed to save report: '' @ e)])
         \<and> generate_report rnd clk Written checkers
           = Inr (rep, [(LOG_INFO, ''Report saved to '' @ REPORT_FILE)])
         \<and> sm_up (summary rep)
           = length (filter (\<lambda>c. history c \<noteq> [] \<and> st_health (last (history c)) = UP) checkers)
         \<and> sm_degraded (summary rep)
           = length (filter (\<lambda>c. history c \<noteq> [] \<and> st_health (last (history c)) = DEGRADED)
               checkers)
         \<and> sm_down (summary rep)
           = length (filter (\<lambda>c. history c \<noteq> [] \<and> st_health (last (history c)) = DOWN)
               checkers))
      \<and> app_health_checker_main rnd clk get (WriteFails e) apps =
         (if \<exists>i<length apps. \<exists>x. check_health rnd (clk i) (get i) (init (apps ! i)) = Inl x
          then 2
          else if \<exists>i<length apps. \<exists>status self'.
                    check_health rnd (clk i) (get i) (init (apps ! i)) = Inr (status, self')
                    \<and> st_health status = DOWN
          then 1
          else 0))
   \<and> (case generate_report rnd clk Written checkers of
      Inl x \<Rightarrow> generate_report rnd clk (WriteFails e) checkers = Inl x
    | Inr (rep, logged) \<Rightarrow>
        generate_report rnd clk (WriteFails e) checkers
          = Inr (rep, [(LOG_ERROR, ''Failed to save report: '' @ e)]))
   \<and> app_health_checker_main rnd clk get (WriteFails e) apps
     = app_health_checker_main rnd clk get Written apps"
proof -
  have same_exit: "app_health_checker_main rnd clk get (WriteFails e) apps
     = app_health_checker_main rnd clk get Written apps"
    by (simp add: app_health_checker_main_def generate_report_def Let_def
        split: sum.splits)
  have same_report: "(case generate_report rnd clk Written checkers of
      Inl x \<Rightarrow> generate_report rnd clk (WriteFails e) checkers = Inl x
    | Inr (rep, logged) \<Rightarrow>
        generate_report rnd clk (WriteFails e) checkers
          = Inr (rep, [(LOG_ERROR, ''Failed to save report: '' @ e)]))"
    by (simp add: generate_report_def Let_def split: sum.splits)
  have returns: "\<exists>rep.
         generate_report rnd clk (WriteFails e) checkers
           = Inr (rep, [(LOG_ERROR, ''Failed to save report: '' @ e)])
         \<and> generate_report rnd clk Written checkers
           = Inr (rep, [(LOG_INFO, ''Report saved to '' @ REPORT_FILE)])
         \<and> sm_up (summary rep)
           = length (filter (\<lambda>c. history c \<noteq> [] \<and> st_health (last (history c)) = UP) checkers)
         \<and> sm_degraded (summary rep)
           = length (filter (\<lambda>c. history c \<noteq> [] \<and> st_health (last (history c)) = DEGRADED)
               checkers)
         \<and> sm_down (summary rep)
           = length (filter (\<lambda>c. history c \<noteq> [] \<and> st_health (last (history c)) = DOWN)
               checkers)"
    if clk: "report_clock clk"
  proof -
    from generate_report_counts [OF clk, of rnd Written checkers]
    obtain rep logged where
      rep: "generate_report rnd clk Written checkers = Inr (rep, logged)"
        "sm_down (summary rep)
           = length (filter (\<lambda>c. history c \<noteq> [] \<and> st_health (last (history c)) = DOWN)
               checkers)"
        "sm_degraded (summary rep)
           = length (filter (\<lambda>c. history c \<noteq> [] \<and> st_health (last (history c)) = DEGRADED)
               checkers)"
        "sm_up (summary rep)
           = length (filter (\<lambda>c. history c \<noteq> [] \<and> st_health (last (history c)) = UP) checkers)"
      by blast
    from rep(1) have saved: "logged = [(LOG_INFO, ''Report saved to '' @ REPORT_FILE)]"
      by (auto simp: generate_report_def Let_def split: sum.splits)
    from same_report rep(1)
    have "generate_report rnd clk (WriteFails e) checkers
           = Inr (rep, [(LOG_ERROR, ''Failed to save report: '' @ e)])"
      by simp
    with rep saved show ?thesis by blast
  qed
  from returns app_main_exit_code [of clk rnd get "WriteFails e" apps] same_report same_exit
  show ?thesis by blast
qed

theorem report_write_failure_is_harmless_witness:
  "(\<exists>rep.
      generate_report exact (fixed_clock 63900000000000000) (WriteFails ''No space left'')
        [(init (APPLICATIONS ! 0))\<lparr>history := [entry 63899990000000000 DOWN]\<rparr>,
         (init (APPLICATIONS ! 1))\<lparr>history := [entry 63899995000000000 UP]\<rparr>]
        = Inr (rep, [(LOG_ERROR, ''Failed to save report: No space left'')])
      \<and> sm_up (summary rep) = 1 \<and> sm_degraded (summary rep) = 0 \<and> sm_down (summary rep) = 1)
   \<and> app_health_checker_main exact (fixed_clock 63900000000000000) (always Timeout)
        (WriteFails ''No space left'') APPLICATIONS = 1"
proof -
  let ?cs = "[(init (APPLICATIONS ! 0))\<lparr>history := [entry 63899990000000000 DOWN]\<rparr>,
         (init (APPLICATIONS ! 1))\<lparr>history := [entry 63899995000000000 UP]\<rparr>]"
  note h = report_write_failure_is_harmless [of "fixed_clock 63900000000000000" exact
      "''No space left''" ?cs "always Timeout" APPLICATIONS]
  have two: "\<exists>i. i < length APPLICATIONS"
    by (auto simp: APPLICATIONS_def)
  from h report_clock_fixed obtain rep where
    rep: "generate_report exact (fixed_clock 63900000000000000) (WriteFails ''No space left'') ?cs
           = Inr (rep, [(LOG_ERROR, ''Failed to save report: '' @ ''No space left'')])"
      "sm_up (summary rep)
           = length (filter (\<lambda>c. history c \<noteq> [] \<and> st_health (last (history c)) = UP) ?cs)"
      "sm_degraded (summary rep)
           = length (filter (\<lambda>c. history c \<noteq> [] \<and> st_health (last (history c)) = DEGRADED) ?cs)"
      "sm_down (summary rep)
           = length (filter (\<lambda>c. history c \<noteq> [] \<and> st_health (last (history c)) = DOWN) ?cs)"
    by blast
  from rep(2-4) have "sm_up (summary rep) = 1" "sm_degraded (summary rep) = 0"
    "sm_down (summary rep) = 1"
    by (simp_all add: entry_def)
  moreover from h report_clock_fixed
  have "app_health_checker_main exact (fixed_clock 63900000000000000) (always Timeout)
        (WriteFails ''No space left'') APPLICATIONS = 1"
    by (simp add: two check_health_def always_def)
  ultimately show ?thesis using rep(1) by auto
qed


section \<open>Properties of the rolling uptime\<close>

lemma is_recent_in_range:
  assumes "- 999999999 \<le> hours div 24" "hours div 24 \<le> 999999999"
    and "0 \<le> now - hours * 3600 * 1000000" "now - hours * 3600 * 1000000 \<le> DATETIME_MAX"
  shows "is_recent now ts hours = Inr (now - hours * 3600 * 1000000 < ts)"
  using assms by (simp add: is_recent_def timedelta_hours_def datetime_sub_def)

lemma recent_checks_enumerate:
  assumes "- 999999999 \<le> hours div 24" "hours div 24 \<le> 999999999"
    and "\<forall>k<length hist. 0 \<le> clk (n + k) - hours * 3600 * 1000000
           \<and> clk (n + k) - hours * 3600 * 1000000 \<le> DATETIME_MAX"
  shows "recent_checks (advance n clk) hist hours =
     Inr (map snd (filter (\<lambda>(k, h). clk k - hours * 3600 * 1000000 < st_timestamp h)
            (enumerate n hist)))"
  using assms(3)
proof (induction hist arbitrary: n)
  case Nil
  then show ?case by simp
next
  case (Cons h hs)
  from Cons.prems have now: "0 \<le> clk n - hours * 3600 * 1000000"
    "clk n - hours * 3600 * 1000000 \<le> DATETIME_MAX"
    by force+
  have "\<forall>k<length hs. 0 \<le> clk (Suc n + k) - hours * 3600 * 1000000
           \<and> clk (Suc n + k) - hours * 3600 * 1000000 \<le> DATETIME_MAX"
  proof (intro allI impI)
    fix k assume "k < length hs"
    then have "Suc k < length (h # hs)" by simp
    with Cons.prems have "0 \<le> clk (n + Suc k) - hours * 3600 * 1000000
           \<and> clk (n + Suc k) - hours * 3600 * 1000000 \<le> DATETIME_MAX"
      by blast
    then show "0 \<le> clk (Suc n + k) - hours * 3600 * 1000000
           \<and> clk (Suc n + k) - hours * 3600 * 1000000 \<le> DATETIME_MAX"
      by simp
  qed
  from Cons.IH [OF this] have rest: "recent_checks (advance (Suc n) clk) hs hours =
     Inr (map snd (filter (\<lambda>(k, h). clk k - hours * 3600 * 1000000 < st_timestamp h)
            (enumerate (Suc n) hs)))" .
  have adv: "advance 1 (advance n clk) = advance (Suc n) clk"
    by (simp add: advance_advance)
  have first: "is_recent (advance n clk 0) (st_timestamp h) hours
      = Inr (clk n - hours * 3600 * 1000000 < st_timestamp h)"
    using is_recent_in_range [OF assms(1,2) now] by (simp add: advance_def)
  show ?case
    unfolding recent_checks.simps first adv rest by simp
qed

lemma rounded_share_bounds:
  assumes "mono rnd" "rnd 0 = 0" "rnd 1 = 1" "rnd 100 = 100" "up \<le> n" "0 < n"
  shows "0 \<le> rnd (rnd (of_nat up / of_nat n) * 100)"
    and "rnd (rnd (of_nat up / of_nat n) * 100) \<le> (100 :: rat)"
proof -
  let ?q = "of_nat up / of_nat n :: rat"
  from assms(5,6) have q: "0 \<le> ?q" "?q \<le> 1" by simp_all
  from monoD [OF assms(1) q(1)] monoD [OF assms(1) q(2)] assms(2,3)
  have r: "0 \<le> rnd ?q" "rnd ?q \<le> 1" by simp_all
  then have p: "0 \<le> rnd ?q * 100" "rnd ?q * 100 \<le> 100" by simp_all
  from monoD [OF assms(1) p(1)] assms(2) show "0 \<le> rnd (rnd ?q * 100)" by simp
  from monoD [OF assms(1) p(2)] assms(4) show "rnd (rnd ?q * 100) \<le> 100" by simp
qed

text \<open>
  C2, as the code has it. Take a window of \<open>hours\<close> hours that \<open>timedelta\<close> can
  represent and a clock whose readings, moved back by the window, are \<open>datetime\<close>
  values. An entry is in the window when its timestamp is strictly later than the clock
  reading taken for it minus the window; there is no upper end. Then
  \<open>get_uptime_percentage\<close> returns the share of \<open>UP\<close> entries among the entries in the
  window, times 100; it returns 0 when no entry is in the window, and for the empty
  history whatever the window; it returns 100 when the window holds an entry and all its
  entries are \<open>UP\<close>. Entries outside the window enter neither count.
\<close>

theorem uptime_percentage_window:
  assumes "- 999999999 \<le> hours div 24" "hours div 24 \<le> 999999999"
    and "\<forall>k<length hist. 0 \<le> clk k - hours * 3600 * 1000000
           \<and> clk k - hours * 3600 * 1000000 \<le> DATETIME_MAX"
  shows "get_uptime_percentage rnd clk hist hours =
       Inr (let in_window = filter (\<lambda>(k, h). clk k - hours * 3600 * 1000000 < st_timestamp h)
                              (enumerate 0 hist);
                up_count = length (filter (\<lambda>(k, h). st_health h = UP) in_window)
            in if in_window = [] then 0
               else rnd (rnd (of_nat up_count / of_nat (length in_window)) * 100))
     \<and> (hist = [] \<longrightarrow> get_uptime_percentage rnd clk hist hours = Inr 0)
     \<and> (rnd 1 = 1 \<and> rnd 100 = 100
        \<and> (\<exists>k<length hist. clk k - hours * 3600 * 1000000 < st_timestamp (hist ! k))
        \<and> (\<forall>k<length hist. clk k - hours * 3600 * 1000000 < st_timestamp (hist ! k)
              \<longrightarrow> st_health (hist ! k) = UP)
        \<longrightarrow> get_uptime_percentage rnd clk hist hours = Inr 100)"
proof -
  let ?W = "filter (\<lambda>(k, h). clk k - hours * 3600 * 1000000 < st_timestamp h) (enumerate 0 hist)"
  from assms(3) have "\<forall>k<length hist. 0 \<le> clk (0 + k) - hours * 3600 * 1000000
           \<and> clk (0 + k) - hours * 3600 * 1000000 \<le> DATETIME_MAX"
    by simp
  from recent_checks_enumerate [OF assms(1,2) this]
  have rc: "recent_checks clk hist hours = Inr (map snd ?W)"
    by (simp add: advance_def)
  have main: "get_uptime_percentage rnd clk hist hours =
       Inr (let in_window = ?W;
                up_count = length (filter (\<lambda>(k, h). st_health h = UP) in_window)
            in if in_window = [] then 0
               else rnd (rnd (of_nat up_count / of_nat (length in_window)) * 100))"
    by (simp add: get_uptime_percentage_def rc Let_def case_prod_unfold)
  have empty: "get_uptime_percentage rnd clk hist hours = Inr 0" if "hist = []"
    using that by (simp add: get_uptime_percentage_def)
  have all_up: "get_uptime_percentage rnd clk hist hours = Inr 100"
    if r: "rnd 1 = 1" "rnd 100 = 100"
      and ex: "\<exists>k<length hist. clk k - hours * 3600 * 1000000 < st_timestamp (hist ! k)"
      and al: "\<forall>k<length hist. clk k - hours * 3600 * 1000000 < st_timestamp (hist ! k)
              \<longrightarrow> st_health (hist ! k) = UP"
  proof -
    from ex obtain k where k: "k < length hist"
      "clk k - hours * 3600 * 1000000 < st_timestamp (hist ! k)" by blast
    then have "(k, hist ! k) \<in> set ?W"
      by (simp add: in_set_enumerate_eq)
    then have ne: "?W \<noteq> []" by (metis empty_iff list.set(1))
    have "\<forall>x\<in>set ?W. (\<lambda>(k, h). st_health h = UP) x"
      using al by (auto simp: in_set_enumerate_eq)
    then have "filter (\<lambda>(k, h). st_health h = UP) ?W = ?W"
      by (simp only: filter_True)
    with ne r show ?thesis
      unfolding main by (simp add: Let_def)
  qed
  from main empty all_up show ?thesis by blast
qed

theorem uptime_percentage_window_witness:
  "get_uptime_percentage exact (fixed_clock 63900000000000000)
     [entry 63899913600000000 DOWN, entry 63899990000000000 UP, entry 63899995000000000 DOWN] 24
     = Inr 50
   \<and> get_uptime_percentage exact (fixed_clock 63900000000000000)
     [entry 63899913600000000 DOWN, entry 63899990000000000 UP] 24 = Inr 100
   \<and> get_uptime_percentage exact (fixed_clock 63900000000000000)
     [entry 63899913600000000 UP] 24 = Inr 0"
proof -
  have td: "- 999999999 \<le> (24 :: int) div 24" "(24 :: int) div 24 \<le> 999999999"
    by simp_all
  have clk: "\<forall>k<length hist. 0 \<le> fixed_clock 63900000000000000 k - 24 * 3600 * 1000000
           \<and> fixed_clock 63900000000000000 k - 24 * 3600 * 1000000 \<le> DATETIME_MAX"
    for hist :: "check_result list"
    by (simp add: fixed_clock_def DATETIME_MAX_def)
  note w = uptime_percentage_window [where hours = 24 and rnd = exact
      and clk = "fixed_clock 63900000000000000", OF td clk]
  have "get_uptime_percentage exact (fixed_clock 63900000000000000)
     [entry 63899913600000000 DOWN, entry 63899990000000000 UP, entry 63899995000000000 DOWN] 24
     = Inr 50"
    using w [where hist = "[entry 63899913600000000 DOWN, entry 63899990000000000 UP,
        entry 63899995000000000 DOWN]"]
    by (simp add: fixed_clock_def exact_def entry_def Let_def)
  moreover have "get_uptime_percentage exact (fixed_clock 63900000000000000)
     [entry 63899913600000000 DOWN, entry 63899990000000000 UP] 24 = Inr 100"
    using w [where hist = "[entry 63899913600000000 DOWN, entry 63899990000000000 UP]"]
    by (simp add: fixed_clock_def exact_def entry_def Let_def)
  moreover have "get_uptime_percentage exact (fixed_clock 63900000000000000)
     [entry 63899913600000000 UP] 24 = Inr 0"
    using w [where hist = "[entry 63899913600000000 UP]"]
    by (simp add: fixed_clock_def exact_def entry_def Let_def)
  ultimately show ?thesis by blast
qed

text \<open>
  The closed window of the specification and the code differ at both ends. An entry
  that is \<open>UP\<close> and exactly 24 hours old lies in the closed window, which gives 100,
  and is not recent for the code, which returns 0. An entry that is \<open>UP\<close> and one
  microsecond later than the clock lies outside the closed window, which gives 0, and is
  recent for the code, which returns 100.
\<close>

theorem closed_window_counterexample:
  "closed_window_uptime exact 63900000000000000 [entry 63899913600000000 UP] 24 = 100
   \<and> get_uptime_percentage exact (fixed_clock 63900000000000000)
        [entry 63899913600000000 UP] 24 = Inr 0
   \<and> closed_window_uptime exact 63900000000000000 [entry 63900000000000001 UP] 24 = 0
   \<and> get_uptime_percentage exact (fixed_clock 63900000000000000)
        [entry 63900000000000001 UP] 24 = Inr 100"
  by (simp add: closed_window_uptime_def get_uptime_percentage_def is_recent_def
      timedelta_hours_def datetime_sub_def DATETIME_MAX_def fixed_clock_def exact_def
      entry_def Let_def)

text \<open>
  C10. For a rounding that is monotone and exact on 0, 1 and 100, as rounding to the
  nearest float is, every value that \<open>get_uptime_percentage\<close> returns lies between 0
  and 100 inclusive, whatever the history, the clock and the window; and it does return
  a value whenever \<open>timedelta\<close> can represent the window and the readings of the clock,
  moved back by the window, are \<open>datetime\<close> values.
\<close>

theorem uptime_percentage_bounds:
  assumes "mono rnd" "rnd 0 = 0" "rnd 1 = 1" "rnd 100 = 100"
  shows "(\<forall>v. get_uptime_percentage rnd clk hist hours = Inr v \<longrightarrow> 0 \<le> v \<and> v \<le> 100)
     \<and> (- 999999999 \<le> hours div 24 \<and> hours div 24 \<le> 999999999
        \<and> (\<forall>k<length hist. 0 \<le> clk k - hours * 3600 * 1000000
               \<and> clk k - hours * 3600 * 1000000 \<le> DATETIME_MAX)
        \<longrightarrow> (\<exists>v. get_uptime_percentage rnd clk hist hours = Inr v \<and> 0 \<le> v \<and> v \<le> 100))"
proof -
  have bounds: "0 \<le> v \<and> v \<le> 100"
    if v: "get_uptime_percentage rnd clk hist hours = Inr v" for v
  proof (cases "hist = []")
    case True
    with v show ?thesis by (simp add: get_uptime_percentage_def)
  next
    case False
    show ?thesis
    proof (cases "recent_checks clk hist hours")
      case (Inl e)
      with v False show ?thesis by (simp add: get_uptime_percentage_def)
    next
      case (Inr recent)
      show ?thesis
      proof (cases "recent = []")
        case True
        with v False Inr show ?thesis by (simp add: get_uptime_percentage_def)
      next
        case ne: False
        let ?up = "length (filter (\<lambda>h. st_health h = UP) recent)"
        from v False Inr ne
        have "v = rnd (rnd (of_nat ?up / of_nat (length recent)) * 100)"
          by (simp add: get_uptime_percentage_def Let_def)
        moreover have "?up \<le> length recent" by simp
        moreover from ne have "0 < length recent" by simp
        ultimately show ?thesis
          using rounded_share_bounds [OF assms, of ?up "length recent"] by simp
      qed
    qed
  qed
  have returns: "\<exists>v. get_uptime_percentage rnd clk hist hours = Inr v"
    if "- 999999999 \<le> hours div 24" "hours div 24 \<le> 999999999"
      "\<forall>k<length hist. 0 \<le> clk k - hours * 3600 * 1000000
               \<and> clk k - hours * 3600 * 1000000 \<le> DATETIME_MAX"
  proof -
    from that(3) have "\<forall>k<length hist. 0 \<le> clk (0 + k) - hours * 3600 * 1000000
           \<and> clk (0 + k) - hours * 3600 * 1000000 \<le> DATETIME_MAX"
      by simp
    from recent_checks_enumerate [OF that(1,2) this]
    obtain rs where "recent_checks clk hist hours = Inr rs"
      by (simp add: advance_def)
    then show ?thesis by (simp add: get_uptime_percentage_def Let_def)
  qed
  from bounds returns show ?thesis by blast
qed

theorem uptime_percentage_bounds_witness:
  "\<exists>v. get_uptime_percentage exact (fixed_clock 63900000000000000)
          [entry 63899990000000000 UP, entry 63899995000000000 DOWN,
           entry 63899999000000000 DOWN] 24 = Inr v
        \<and> 0 \<le> v \<and> v \<le> 100"
proof -
  have rnd: "mono exact" "exact 0 = 0" "exact 1 = 1" "exact 100 = 100"
    by (simp_all add: mono_def exact_def)
  have td: "- 999999999 \<le> (24 :: int) div 24 \<and> (24 :: int) div 24 \<le> 999999999"
    by simp
  have clk: "\<forall>k<length hist. 0 \<le> fixed_clock 63900000000000000 k - 24 * 3600 * 1000000
           \<and> fixed_clock 63900000000000000 k - 24 * 3600 * 1000000 \<le> DATETIME_MAX"
    for hist :: "check_result list"
    by (simp add: fixed_clock_def DATETIME_MAX_def)
  from uptime_percentage_bounds [OF rnd] td clk show ?thesis by blast
qed


section \<open>Properties of the resource monitor\<close>

lemma details_fstring_rejected: "fstring_rejected DETAILS_FSTRING"
  by (simp add: fstring_rejected_def DETAILS_FSTRING_def expression_start_def)

lemma accepted_fstring_examples:
  "\<not> fstring_rejected ''Per core: {cpu_per_core}''"
  "\<not> fstring_rejected ''Disk ({partition.mountpoint})''"
  by (simp_all add: fstring_rejected_def expression_start_def)

text \<open>
  C3. The claim asks for the status \<open>CRITICAL\<close> when a sampled value exceeds its
  threshold. On a host whose CPU is sampled at 91.2 percent, above the threshold of 80,
  the run of the script reports no status at all: the file does not compile.
\<close>

theorem no_status_above_threshold:
  "map_option reported
     (system_health_monitor_script
        \<lparr>s_cpu_percent = 456 / 5, s_memory_percent = 40,
         s_partitions = [(''/'', Usage 40)], s_process_count = 120\<rparr>) = Some []"
  by (simp add: system_health_monitor_script_def details_fstring_rejected)

text \<open>
  C4. The claim asks for exit code 0 when no metric is \<open>CRITICAL\<close>, and for 2 on an
  internal error. The run of the resource script ends with status 1 whatever psutil
  would sample, also when every metric is below its threshold.
\<close>

theorem resource_script_exit_status:
  "map_option exit_status (system_health_monitor_script samples) = Some 1"
  by (simp add: system_health_monitor_script_def details_fstring_rejected)

text \<open>
  C8. The claim asks for one result per partition that was sampled successfully, the
  partitions that raise a permission error being passed over. On a host with two
  readable partitions and one that raises the permission error, the run of the script
  reports no result for any partition: the file does not compile.
\<close>

theorem no_disk_result_after_permission_error:
  "map_option reported
     (system_health_monitor_script
        \<lparr>s_cpu_percent = 10, s_memory_percent = 40,
         s_partitions = [(''/'', Usage 40), (''/root'', PermissionError), (''/data'', Usage 90)],
         s_process_count = 120\<rparr>) = Some []"
  by (simp add: system_health_monitor_script_def details_fstring_rejected)


end
